theory Spec2Isabelle
  imports Main
begin

section \<open>The mockfs virtual file (src/mockfs/storage.py)\<close>

text \<open>
  A shallow embedding of class \<open>file\<close> and of the example \<open>backend\<close> of
  \<open>storage.py\<close>. Every method of the class becomes a function \<open>file_<method>\<close> that
  takes the object (and the module's globals where the method touches the backend) and
  returns the raised exception or the returned value together with the object as the
  call leaves it: a method can raise after it has assigned an attribute.

  Text and byte content are both lists of \<open>char\<close>, as in Python 2, where \<open>str\<close> is the
  byte string (the module supports it: see its \<open>sys.version_info[0] == 2\<close> branch). Under
  Python 3 a binary handle mixes \<open>bytes\<close> with the \<open>str\<close> literals of \<open>truncate\<close> and
  \<open>readline\<close>, which raises a \<open>TypeError\<close> that this model does not have; what is
  proved about binary modes is proved for the Python 2 reading. The three units the code names are
  \<open>LF\<close>, \<open>CR\<close> and \<open>NUL\<close>. Integer arguments are \<open>int\<close>, and \<open>None\<close> stands for the
  sentinel \<open>DEFAULT\<close> of an omitted \<open>size\<close>. The cursor \<open>_position\<close> is a \<open>nat\<close>: it
  starts at 0, \<open>seek\<close> refuses a negative target, and every other assignment adds a
  length to it. Arguments are of the types the methods expect, so the \<open>TypeError\<close>
  branches (a name or mode that is no string, a size that is no number) have no
  counterpart here (a float is truncated to an integer before use). The finalizer
  \<open>__del__\<close> runs at a time the language does not fix and is left out.
\<close>

subsection \<open>Exceptions\<close>

text \<open>A message is a literal, or a format string with the one argument its \<open>%r\<close> takes.\<close>

datatype message = Msg string | Fmt string string

datatype error =
    ValueError message
  | IOError message
  | KeyError string
  | AssertionError message
  | StopIteration

text \<open>The exception class a call raised, read off its outcome.\<close>

definition raises_ValueError :: "error + 'a \<Rightarrow> bool" where
  "raises_ValueError r = (case r of Inl (ValueError _) \<Rightarrow> True | _ \<Rightarrow> False)"

definition raises_IOError :: "error + 'a \<Rightarrow> bool" where
  "raises_IOError r = (case r of Inl (IOError _) \<Rightarrow> True | _ \<Rightarrow> False)"

subsection \<open>Mode tables (lines 21 to 27)\<close>

text \<open>
  The module first binds \<open>READ_MODES\<close> and \<open>WRITE_MODES\<close> to the pure tokens, builds
  \<open>ALL_MODES\<close> from them and \<open>MIXED_MODES\<close>, and then extends both with the mixed tokens.
  \<open>READ_MODES0\<close> and \<open>WRITE_MODES0\<close> are the tables before that extension.
\<close>

definition READ_MODES0 :: "string list" where
  "READ_MODES0 = [''r'', ''rb'', ''rU'']"

definition WRITE_MODES0 :: "string list" where
  "WRITE_MODES0 = [''w'', ''wb'', ''a'', ''ab'']"

definition MIXED_MODES :: "string list" where
  "MIXED_MODES = [''r+'', ''r+b'', ''w+'', ''w+b'', ''a+'', ''a+b'']"

definition ALL_MODES :: "string list" where
  "ALL_MODES = READ_MODES0 @ WRITE_MODES0 @ MIXED_MODES"

definition READ_MODES :: "string list" where
  "READ_MODES = READ_MODES0 @ MIXED_MODES"

definition WRITE_MODES :: "string list" where
  "WRITE_MODES = WRITE_MODES0 @ MIXED_MODES"

subsection \<open>String methods the class calls\<close>

definition LF :: char where "LF = CHR 0x0A"
definition CR :: char where "CR = CHR 0x0D"
definition NUL :: char where "NUL = CHR 0x00"

definition startswith :: "string \<Rightarrow> string \<Rightarrow> bool" where
  "startswith s pre = (take (length pre) s = pre)"

definition endswith :: "string \<Rightarrow> string \<Rightarrow> bool" where
  "endswith s suf = (length suf \<le> length s \<and> drop (length s - length suf) s = suf)"

text \<open>\<open>s.find(sub)\<close>: the index of the first occurrence of \<open>sub\<close> in \<open>s\<close>, or -1.\<close>

fun str_find :: "string \<Rightarrow> string \<Rightarrow> int" where
  "str_find [] sub = (if sub = [] then 0 else - 1)"
| "str_find (c # cs) sub =
     (if startswith (c # cs) sub then 0
      else (let r = str_find cs sub in if r = - 1 then - 1 else r + 1))"

text \<open>
  \<open>s.replace(old, new)\<close>: every occurrence of \<open>old\<close>, found from the left and without
  overlap, becomes \<open>new\<close>; an empty \<open>old\<close> matches before every unit and at the end.
\<close>

fun str_replace :: "string \<Rightarrow> string \<Rightarrow> string \<Rightarrow> string" where
  "str_replace [] old new = (if old = [] then new else [])"
| "str_replace (c # cs) old new =
     (if old = [] then new @ c # str_replace cs old new
      else if startswith (c # cs) old
        then new @ str_replace (drop (length old) (c # cs)) old new
      else c # str_replace cs old new)"

subsection \<open>Module globals and the backend (lines 32 to 38 and 451 to 471)\<close>

record globals =
  store :: "string \<rightharpoonup> string"
  fileno_counter :: int

definition get_new_fileno :: "globals \<Rightarrow> int \<times> globals" where
  "get_new_fileno g =
     (let g' = g\<lparr>fileno_counter := fileno_counter g + 1\<rparr> in (fileno_counter g', g'))"

definition CheckForFile :: "globals \<Rightarrow> string \<Rightarrow> bool" where
  "CheckForFile g filename = (store g filename \<noteq> None)"

definition DeleteFile :: "globals \<Rightarrow> string \<Rightarrow> error + globals" where
  "DeleteFile g filename =
     (case store g filename of
        None \<Rightarrow> Inl (KeyError filename)
      | Some _ \<Rightarrow> Inr (g\<lparr>store := (store g)(filename := None)\<rparr>))"

definition LoadFile :: "globals \<Rightarrow> string \<Rightarrow> error + string" where
  "LoadFile g filename =
     (case store g filename of None \<Rightarrow> Inl (KeyError filename) | Some d \<Rightarrow> Inr d)"

definition SaveFile :: "globals \<Rightarrow> string \<Rightarrow> string \<Rightarrow> globals" where
  "SaveFile g filename d = g\<lparr>store := (store g)(filename \<mapsto> d)\<rparr>"

subsection \<open>The file object\<close>

record vfile =
  name :: string
  mode :: string
  position :: nat
  closed :: bool
  binary :: bool
  fileno :: int
  in_iter :: bool
  softspace :: int
  data :: string

definition bad_file_descriptor :: error where
  "bad_file_descriptor = IOError (Msg ''Bad file descriptor'')"

definition closed_file :: error where
  "closed_file = ValueError (Msg ''I/O operation on closed file'')"

definition unsupported_mode :: "string \<Rightarrow> error" where
  "unsupported_mode m =
     ValueError (Fmt ''The only supported modes are r(+)(b), w(+)(b) and a(+)(b), not %r'' m)"

subsection \<open>Opening (lines 83 to 144)\<close>

definition file_open_read :: "globals \<Rightarrow> vfile \<Rightarrow> error + vfile" where
  "file_open_read g self =
     (if \<not> CheckForFile g (name self)
      then Inl (IOError (Fmt ''No such file or directory: %r'' (name self)))
      else case LoadFile g (name self) of
             Inl e \<Rightarrow> Inl e
           | Inr d \<Rightarrow>
               Inr (self\<lparr>data := (if binary self then d else str_replace d [CR, LF] [LF])\<rparr>))"

text \<open>
  \<open>SaveFile\<close> of the example backend stores into a dictionary and raises nothing, so the
  \<open>except IOError\<close> branch of \<open>_open_write\<close> is never taken.
\<close>

definition file_open_write :: "globals \<Rightarrow> vfile \<Rightarrow> (error + vfile) \<times> globals" where
  "file_open_write g self = (Inr self, SaveFile g (name self) [])"

definition file_open_append :: "globals \<Rightarrow> vfile \<Rightarrow> (error + vfile) \<times> globals" where
  "file_open_append g self =
     (if CheckForFile g (name self)
      then (case file_open_read g self of
              Inl e \<Rightarrow> (Inl e, g)
            | Inr self' \<Rightarrow> (Inr (self'\<lparr>position := length (data self')\<rparr>), g))
      else file_open_write g self)"

definition file_init :: "globals \<Rightarrow> string \<Rightarrow> string \<Rightarrow> (error + vfile) \<times> globals" where
  "file_init g nm md =
     (let (fno, g1) = get_new_fileno g;
          self = \<lparr>name = nm, mode = md, position = 0, closed = False,
                  binary = endswith md ''b'', fileno = fno, in_iter = False,
                  softspace = 0, data = []\<rparr>
      in if md \<notin> set ALL_MODES then (Inl (unsupported_mode md), g1)
         else if nm = [] then
           (Inl (IOError (Msg (''No such file or directory: '' @ [CHR 0x27, CHR 0x27]))), g1)
         else if md \<in> set READ_MODES \<and> take 1 md \<notin> {''a'', ''w''}
           then (file_open_read g1 self, g1)
         else if md \<in> set WRITE_MODES
           then (if startswith md ''a'' then file_open_append g1 self
                 else file_open_write g1 self)
         else (Inl (AssertionError (Msg ''whoops - not possible, surely??'')), g1))"

subsection \<open>read, write, close (lines 154 to 225)\<close>

definition file_read :: "globals \<Rightarrow> vfile \<Rightarrow> int option \<Rightarrow> (error + string) \<times> vfile" where
  "file_read g self sz =
     (if mode self \<notin> set READ_MODES then (Inl bad_file_descriptor, self)
      else if closed self then (Inl closed_file, self)
      else if in_iter self
        then (Inl (ValueError (Msg ''Mixing iteration and read methods would lose data'')), self)
      else
        let pos = position self in
        case (if pos = 0 \<and> mode self \<notin> set WRITE_MODES
              then file_open_read g self else Inr self) of
          Inl e \<Rightarrow> (Inl e, self)
        | Inr self1 \<Rightarrow>
            let n = (case sz of
                       None \<Rightarrow> length (data self1)
                     | Some k \<Rightarrow> if k < 0 then length (data self1) else nat k);
                d = take n (drop pos (data self1))
            in (Inr d, self1\<lparr>position := position self1 + length d\<rparr>))"

definition file_write :: "vfile \<Rightarrow> string \<Rightarrow> (error + unit) \<times> vfile" where
  "file_write self d0 =
     (if mode self \<notin> set WRITE_MODES then (Inl bad_file_descriptor, self)
      else if closed self then (Inl closed_file, self)
      else
        let self1 = self\<lparr>softspace := 0\<rparr> in
        if d0 = [] then (Inr (), self1)
        else
          let d = (if binary self1 then d0 else str_replace d0 [LF] [CR, LF]);
              pos = position self1;
              start = take pos (data self1);
              padding = replicate (pos - length start) NUL;
              rest = drop (pos + length d) (data self1)
          in (Inr (), self1\<lparr>data := start @ padding @ d @ rest,
                              position := pos + length d\<rparr>))"

definition file_close :: "globals \<Rightarrow> vfile \<Rightarrow> (error + unit) \<times> vfile \<times> globals" where
  "file_close g self =
     (if closed self then (Inr (), self, g)
      else
        let self1 = self\<lparr>closed := True\<rparr> in
        if mode self1 \<in> set WRITE_MODES
        then (Inr (), self1, SaveFile g (name self1) (data self1))
        else (Inr (), self1, g))"

subsection \<open>seek, tell, flush (lines 238 to 273)\<close>

definition invalid_argument :: error where
  "invalid_argument = IOError (Msg ''Invalid Argument'')"

definition file_seek :: "vfile \<Rightarrow> int \<Rightarrow> int \<Rightarrow> (error + unit) \<times> vfile" where
  "file_seek self offset whence =
     (if \<not> (0 \<le> whence \<and> whence \<le> 2) then (Inl invalid_argument, self)
      else
        let target = (if whence = 1 then int (position self) + offset
                      else if whence = 2 then int (length (data self)) + offset
                      else offset)
        in if target < 0 then (Inl invalid_argument, self)
           else (Inr (), self\<lparr>in_iter := False, position := nat target\<rparr>))"

definition file_tell :: "vfile \<Rightarrow> nat" where
  "file_tell self = position self"

definition file_flush :: "globals \<Rightarrow> vfile \<Rightarrow> (error + unit) \<times> globals" where
  "file_flush g self =
     (if mode self \<notin> set WRITE_MODES then (Inl bad_file_descriptor, g)
      else (Inr (), SaveFile g (name self) (data self)))"

subsection \<open>Line iteration (lines 292 to 361)\<close>

definition file_readline :: "vfile \<Rightarrow> int option \<Rightarrow> (error + string) \<times> vfile" where
  "file_readline self sz0 =
     (if mode self \<in> set WRITE_MODES then (Inl bad_file_descriptor, self)
      else
        let sz = (case sz0 of
                      None \<Rightarrow> None
                    | Some k \<Rightarrow> if k < 0 then None else Some (nat k))
        in if position self \<ge> length (data self) then (Inr [], self)
           else
             let pos = position self;
                 remaining = drop pos (data self);
                 poz = str_find remaining [LF]
             in if poz = - 1 then
                  (case sz of
                     None \<Rightarrow> (Inr remaining, self\<lparr>position := length (data self)\<rparr>)
                   | Some n \<Rightarrow>
                       if n > length remaining
                       then (Inr remaining, self\<lparr>position := length (data self)\<rparr>)
                       else
                         let actual = take n remaining
                         in (Inr actual, self\<lparr>position := position self + length actual\<rparr>))
                else
                  (case sz of
                     None \<Rightarrow>
                       (Inr (take (nat (poz + 1)) remaining),
                        self\<lparr>position := nat (int pos + poz + 1)\<rparr>)
                   | Some n \<Rightarrow>
                       let actual = take (nat (poz + 1)) remaining
                       in if length actual \<le> n
                          then (Inr actual, self\<lparr>position := position self + length actual\<rparr>)
                          else (Inr (take n actual), self\<lparr>position := position self + n\<rparr>)))"

definition file_next :: "vfile \<Rightarrow> (error + string) \<times> vfile" where
  "file_next self =
     (if mode self \<in> set WRITE_MODES then (Inl bad_file_descriptor, self)
      else
        let self1 = self\<lparr>in_iter := True\<rparr> in
        if position self1 \<ge> length (data self1) then (Inl StopIteration, self1)
        else file_readline self1 None)"

text \<open>
  \<open>list(self)\<close> in \<open>readlines\<close> calls \<open>__next__\<close> until it raises \<open>StopIteration\<close>.
  Every step that returns a line moves the cursor forward, which is why the loop ends.
\<close>

lemma str_find_ge: "- 1 \<le> str_find s sub"
  by (induction s) (auto simp: Let_def)

lemma file_next_progress:
  assumes "file_next self = (Inr line, self1)"
  shows "length (data self1) - position self1 < length (data self) - position self"
proof -
  have "0 \<le> str_find (drop (position self) (data self)) [LF] + 1"
    using str_find_ge [of "drop (position self) (data self)" "[LF]"] by simp
  with assms show ?thesis
    by (auto simp: file_next_def file_readline_def Let_def split: if_splits)
qed

function iterate :: "vfile \<Rightarrow> (error + string list) \<times> vfile" where
  "iterate self =
     (case file_next self of
        (Inl e, self1) \<Rightarrow> if e = StopIteration then (Inr [], self1) else (Inl e, self1)
      | (Inr line, self1) \<Rightarrow>
          (case iterate self1 of
             (Inl e, self2) \<Rightarrow> (Inl e, self2)
           | (Inr result, self2) \<Rightarrow> (Inr (line # result), self2)))"
  by pat_completeness auto
termination
  by (relation "measure (\<lambda>s. length (data s) - position s)")
     (auto dest: file_next_progress [OF sym])

declare iterate.simps [simp del]

definition file_readlines :: "vfile \<Rightarrow> int option \<Rightarrow> (error + string list) \<times> vfile" where
  "file_readlines self sz =
     (if mode self \<in> set WRITE_MODES then (Inl bad_file_descriptor, self)
      else case iterate self of
             (Inl e, self1) \<Rightarrow> (Inl e, self1)
           | (Inr result, self1) \<Rightarrow> (Inr result, self1\<lparr>in_iter := False\<rparr>))"

subsection \<open>truncate (lines 383 to 398)\<close>

definition file_truncate ::
  "globals \<Rightarrow> vfile \<Rightarrow> int option \<Rightarrow> (error + unit) \<times> vfile \<times> globals" where
  "file_truncate g self sz =
     (if mode self \<in> set READ_MODES then (Inl bad_file_descriptor, self, g)
      else if (case sz of None \<Rightarrow> False | Some k \<Rightarrow> k < 0)
        then (Inl (IOError (Msg ''Invalid argument'')), self, g)
      else
        let n = (case sz of None \<Rightarrow> position self | Some k \<Rightarrow> nat k);
            d = take n (data self);
            self1 = self\<lparr>data := d @ replicate (n - length d) NUL\<rparr>;
            (r, g1) = file_flush g self1
        in (r, self1, g1))"

subsection \<open>The mode tokens of the specification\<close>

text \<open>
  The specification's data model lists twelve mode tokens. The list is written down here
  from the specification, to be compared with \<open>ALL_MODES\<close> of the module.
\<close>

definition twelve_tokens :: "string list" where
  "twelve_tokens = [''r'', ''rb'', ''r+'', ''r+b'', ''w'', ''wb'', ''w+'', ''w+b'',
                    ''a'', ''ab'', ''a+'', ''a+b'']"

subsection \<open>The line at the cursor\<close>

text \<open>
  What \<open>readline()\<close> is to return, stated apart from the method: up to and including the next LF, or all that
  remains.
\<close>

definition line_at :: "vfile \<Rightarrow> string" where
  "line_at h =
     (let remaining = drop (position h) (data h); poz = str_find remaining [LF]
      in if poz = - 1 then remaining else take (nat (poz + 1)) remaining)"

section \<open>Basic facts\<close>

lemmas mode_tables = ALL_MODES_def READ_MODES_def WRITE_MODES_def READ_MODES0_def
  WRITE_MODES0_def MIXED_MODES_def

lemmas backend_defs = CheckForFile_def LoadFile_def SaveFile_def get_new_fileno_def

lemmas open_defs = file_init_def file_open_read_def file_open_write_def file_open_append_def
  startswith_def endswith_def

lemmas unit_defs = LF_def CR_def NUL_def

lemma ALL_MODES_eq: "set ALL_MODES = insert ''rU'' (set twelve_tokens)"
  by (auto simp: mode_tables twelve_tokens_def)

lemma MIXED_in_READ: "md \<in> set MIXED_MODES \<Longrightarrow> md \<in> set READ_MODES"
  by (simp add: READ_MODES_def)

lemma MIXED_in_WRITE: "md \<in> set MIXED_MODES \<Longrightarrow> md \<in> set WRITE_MODES"
  by (simp add: WRITE_MODES_def)

section \<open>Mode validation in the constructor\<close>

lemma file_init_unsupported:
  "md \<notin> set ALL_MODES \<Longrightarrow> fst (file_init g nm md) = Inl (unsupported_mode md)"
  by (simp add: file_init_def get_new_fileno_def Let_def)

lemma file_init_supported_not_ValueError:
  assumes "md \<in> set ALL_MODES"
  shows "fst (file_init g nm md) \<noteq> Inl (ValueError m)"
  using assms
  by (auto simp: open_defs backend_defs Let_def mode_tables split: option.splits)

lemma file_init_supported_opens:
  assumes "md \<in> set ALL_MODES" "nm \<noteq> []" "store g nm \<noteq> None"
  shows "\<exists>h. fst (file_init g nm md) = Inr h"
proof -
  from assms(3) obtain d where d: "store g nm = Some d" by auto
  from assms(1) have "md \<in> {''r'', ''rb'', ''rU'', ''w'', ''wb'', ''a'', ''ab'',
      ''r+'', ''r+b'', ''w+'', ''w+b'', ''a+'', ''a+b''}"
    by (simp add: mode_tables)
  then show ?thesis
    using assms(2) d
    by (elim insertE emptyE) (simp_all add: open_defs backend_defs Let_def mode_tables)
qed

text \<open>
  Claim C1, as the specification states it: the constructor accepts a mode string exactly
  when it is one of the twelve tokens. The module's table \<open>ALL_MODES\<close> also holds
  \<open>rU\<close>, and the constructor opens a file in that mode: the claim fails at \<open>rU\<close>.
\<close>

theorem file_init_accepts_rU:
  "''rU'' \<notin> set twelve_tokens
   \<and> fst (file_init \<lparr>store = [''f'' \<mapsto> ''abc''], fileno_counter = 2\<rparr> ''f'' ''rU'')
       = Inr \<lparr>name = ''f'', mode = ''rU'', position = 0, closed = False, binary = False,
               fileno = 3, in_iter = False, softspace = 0, data = ''abc''\<rparr>"
  by (simp add: twelve_tokens_def open_defs backend_defs mode_tables unit_defs)

text \<open>
  Claim C1, amended: the accepted mode strings are the twelve tokens and \<open>rU\<close>. For
  every other mode string the constructor raises the value error whose message names the
  families \<open>r(+)(b)\<close>, \<open>w(+)(b)\<close> and \<open>a(+)(b)\<close>. For each of the thirteen
  accepted strings it raises no value error, and it returns a file object when the name
  is not empty and the backend holds an entry of that name.
\<close>

theorem file_init_mode_check:
  "(md \<notin> set (''rU'' # twelve_tokens) \<longrightarrow>
      fst (file_init g nm md) = Inl (unsupported_mode md))
   \<and> (md \<in> set (''rU'' # twelve_tokens) \<longrightarrow>
      (\<forall>m. fst (file_init g nm md) \<noteq> Inl (ValueError m))
      \<and> (nm \<noteq> [] \<and> store g nm \<noteq> None \<longrightarrow> (\<exists>h. fst (file_init g nm md) = Inr h)))"
  using ALL_MODES_eq file_init_unsupported [of md g nm]
    file_init_supported_not_ValueError [of md g nm]
    file_init_supported_opens [of md nm g]
  by simp

theorem file_init_mode_check_witness:
  "fst (file_init \<lparr>store = [''f'' \<mapsto> ''abc''], fileno_counter = 2\<rparr> ''f'' ''r+x'')
     = Inl (unsupported_mode ''r+x'')
   \<and> (\<exists>h. fst (file_init \<lparr>store = [''f'' \<mapsto> ''abc''], fileno_counter = 2\<rparr> ''f'' ''rU'')
         = Inr h)"
  using file_init_mode_check
      [of "''r+x''" "\<lparr>store = [''f'' \<mapsto> ''abc''], fileno_counter = 2\<rparr>" "''f''"]
    file_init_mode_check
      [of "''rU''" "\<lparr>store = [''f'' \<mapsto> ''abc''], fileno_counter = 2\<rparr>" "''f''"]
  by (simp add: twelve_tokens_def)

section \<open>Capability checks of truncate and of the line readers\<close>

text \<open>
  Claim C3 says that truncate raises the bad-descriptor error exactly when the mode lacks
  write capability. The method tests \<open>mode in READ_MODES\<close>, and that table holds the
  mixed tokens: for every handle with a mode of the module's table, truncate raises the
  bad-descriptor error exactly when the mode is in \<open>READ_MODES\<close>, so it refuses each
  of \<open>r+\<close>, \<open>r+b\<close>, \<open>w+\<close>, \<open>w+b\<close>, \<open>a+\<close>, \<open>a+b\<close> and leaves the handle and the
  backend as they were.
\<close>

theorem truncate_bad_descriptor_iff:
  assumes "mode h \<in> set ALL_MODES"
  shows "(fst (file_truncate g h sz) = Inl bad_file_descriptor) = (mode h \<in> set READ_MODES)
         \<and> (mode h \<in> set MIXED_MODES \<longrightarrow>
              file_truncate g h sz = (Inl bad_file_descriptor, h, g))"
proof -
  have a: "mode h \<in> set READ_MODES \<Longrightarrow> file_truncate g h sz = (Inl bad_file_descriptor, h, g)"
    by (simp add: file_truncate_def)
  have b: "fst (file_truncate g h sz) \<noteq> Inl bad_file_descriptor"
    if "mode h \<notin> set READ_MODES"
  proof -
    from that assms have w: "mode h \<in> set WRITE_MODES"
      by (auto simp: mode_tables)
    show ?thesis
      using that w
      by (simp add: file_truncate_def file_flush_def bad_file_descriptor_def Let_def)
  qed
  show ?thesis
    using a b MIXED_in_READ [of "mode h"] by auto
qed

theorem truncate_bad_descriptor_iff_witness:
  "fst (file_truncate \<lparr>store = [''f'' \<mapsto> ''abc''], fileno_counter = 3\<rparr>
     \<lparr>name = ''f'', mode = ''r+'', position = 0, closed = False, binary = False,
       fileno = 3, in_iter = False, softspace = 0, data = ''abc''\<rparr> None)
     = Inl bad_file_descriptor"
  using truncate_bad_descriptor_iff
      [of "\<lparr>name = ''f'', mode = ''r+'', position = 0, closed = False, binary = False,
             fileno = 3, in_iter = False, softspace = 0, data = ''abc''\<rparr>"
          "\<lparr>store = [''f'' \<mapsto> ''abc''], fileno_counter = 3\<rparr>" None]
  by (simp add: mode_tables)

lemma iterate_bad_descriptor:
  "mode h \<in> set WRITE_MODES \<Longrightarrow> iterate h = (Inl bad_file_descriptor, h)"
  by (simp add: iterate.simps file_next_def bad_file_descriptor_def)

text \<open>
  Claim C4 says that readline, readlines and the iteration step are permitted on a handle
  of a mixed mode. The three methods test \<open>mode in WRITE_MODES\<close>, and that table holds
  the mixed tokens: on every handle of a mixed mode each of them raises the
  bad-descriptor error and leaves the handle as it was. (\<open>read\<close> tests
  \<open>mode not in READ_MODES\<close> and does read on such a handle, as the witness shows.)
\<close>

theorem line_reads_refuse_mixed_modes:
  assumes "mode h \<in> set MIXED_MODES"
  shows "file_readline h sz = (Inl bad_file_descriptor, h)
         \<and> file_readlines h sz = (Inl bad_file_descriptor, h)
         \<and> file_next h = (Inl bad_file_descriptor, h)"
  using MIXED_in_WRITE [OF assms]
  by (simp add: file_readline_def file_readlines_def file_next_def)

theorem line_reads_refuse_mixed_modes_witness:
  "file_readline \<lparr>name = ''f'', mode = ''r+'', position = 0, closed = False,
       binary = False, fileno = 3, in_iter = False, softspace = 0, data = ''abc''\<rparr> None
     = (Inl bad_file_descriptor, \<lparr>name = ''f'', mode = ''r+'', position = 0, closed = False,
       binary = False, fileno = 3, in_iter = False, softspace = 0, data = ''abc''\<rparr>)
   \<and> fst (file_read \<lparr>store = [''f'' \<mapsto> ''abc''], fileno_counter = 3\<rparr>
       \<lparr>name = ''f'', mode = ''r+'', position = 0, closed = False,
       binary = False, fileno = 3, in_iter = False, softspace = 0, data = ''abc''\<rparr> None)
     = Inr ''abc''"
  using line_reads_refuse_mixed_modes
      [of "\<lparr>name = ''f'', mode = ''r+'', position = 0, closed = False, binary = False,
             fileno = 3, in_iter = False, softspace = 0, data = ''abc''\<rparr>" None]
  by (simp add: mode_tables file_read_def)

section \<open>Exception classes of argument errors\<close>

text \<open>
  Claim C5, as the specification states it: opening with an empty name, truncate with a
  negative size and seek with a whence outside 0..2 each raise a ValueError. At the
  inputs below each of the three raises an IOError and no ValueError.
\<close>

theorem argument_errors_not_ValueError:
  "raises_IOError (fst (file_init \<lparr>store = Map.empty, fileno_counter = 2\<rparr> [] ''w''))
   \<and> \<not> raises_ValueError (fst (file_init \<lparr>store = Map.empty, fileno_counter = 2\<rparr> [] ''w''))
   \<and> raises_IOError (fst (file_truncate \<lparr>store = [''f'' \<mapsto> ''''], fileno_counter = 3\<rparr>
         \<lparr>name = ''f'', mode = ''w'', position = 0, closed = False, binary = False,
           fileno = 3, in_iter = False, softspace = 0, data = ''''\<rparr> (Some (- 1))))
   \<and> \<not> raises_ValueError (fst (file_truncate \<lparr>store = [''f'' \<mapsto> ''''], fileno_counter = 3\<rparr>
         \<lparr>name = ''f'', mode = ''w'', position = 0, closed = False, binary = False,
           fileno = 3, in_iter = False, softspace = 0, data = ''''\<rparr> (Some (- 1))))
   \<and> raises_IOError (fst (file_seek \<lparr>name = ''f'', mode = ''w'', position = 0,
           closed = False, binary = False, fileno = 3, in_iter = False, softspace = 0,
           data = ''''\<rparr> 0 3))
   \<and> \<not> raises_ValueError (fst (file_seek \<lparr>name = ''f'', mode = ''w'', position = 0,
           closed = False, binary = False, fileno = 3, in_iter = False, softspace = 0,
           data = ''''\<rparr> 0 3))"
  by (simp add: raises_IOError_def raises_ValueError_def file_init_def get_new_fileno_def
        file_truncate_def file_seek_def invalid_argument_def mode_tables)

text \<open>
  Claim C5, amended: each of the three raises an IOError. Opening with an empty name and a
  mode of the module's table raises \<open>IOError("No such file or directory: ''")\<close>;
  truncate with a negative size raises \<open>IOError('Invalid argument')\<close>, or the
  bad-descriptor IOError when the mode is in \<open>READ_MODES\<close>; seek with a whence outside
  0..2 raises \<open>IOError('Invalid Argument')\<close> and leaves the handle as it was.
\<close>

theorem argument_errors_are_IOError:
  "(md \<in> set ALL_MODES \<longrightarrow>
      fst (file_init g [] md)
        = Inl (IOError (Msg (''No such file or directory: '' @ [CHR 0x27, CHR 0x27]))))
   \<and> (k < 0 \<longrightarrow>
      fst (file_truncate g h (Some k))
        = Inl (if mode h \<in> set READ_MODES then bad_file_descriptor
               else IOError (Msg ''Invalid argument'')))
   \<and> (\<not> (0 \<le> whence \<and> whence \<le> 2) \<longrightarrow>
      file_seek h offset whence = (Inl (IOError (Msg ''Invalid Argument'')), h))"
  by (simp add: file_init_def get_new_fileno_def Let_def file_truncate_def file_seek_def
        invalid_argument_def)

theorem argument_errors_are_IOError_witness:
  "fst (file_init \<lparr>store = Map.empty, fileno_counter = 2\<rparr> [] ''w'')
     = Inl (IOError (Msg (''No such file or directory: '' @ [CHR 0x27, CHR 0x27])))
   \<and> fst (file_truncate \<lparr>store = Map.empty, fileno_counter = 2\<rparr>
       \<lparr>name = ''f'', mode = ''w'', position = 0, closed = False, binary = False,
         fileno = 3, in_iter = False, softspace = 0, data = ''''\<rparr> (Some (- 1)))
     = Inl (IOError (Msg ''Invalid argument''))
   \<and> fst (file_seek \<lparr>name = ''f'', mode = ''w'', position = 0, closed = False,
         binary = False, fileno = 3, in_iter = False, softspace = 0, data = ''''\<rparr> 0 3)
     = Inl (IOError (Msg ''Invalid Argument''))"
  using argument_errors_are_IOError
      [of "''w''" "\<lparr>store = Map.empty, fileno_counter = 2\<rparr>" "- 1"
          "\<lparr>name = ''f'', mode = ''w'', position = 0, closed = False, binary = False,
            fileno = 3, in_iter = False, softspace = 0, data = ''''\<rparr>" 3 0]
  by (simp add: mode_tables)


section \<open>Text round trip through the backend\<close>

lemma file_init_write_mode:
  assumes "md \<in> {''w'', ''w+''}" "nm \<noteq> []"
  shows "file_init g nm md =
    (Inr \<lparr>name = nm, mode = md, position = 0, closed = False, binary = False,
          fileno = fileno_counter g + 1, in_iter = False, softspace = 0, data = []\<rparr>,
     g\<lparr>fileno_counter := fileno_counter g + 1, store := (store g)(nm \<mapsto> [])\<rparr>)"
  using assms
  by (elim insertE emptyE) (simp_all add: open_defs backend_defs Let_def mode_tables)

lemma file_init_read_mode:
  assumes "md \<in> {''r'', ''rU'', ''r+''}" "nm \<noteq> []" "store g nm = Some d"
  shows "file_init g nm md =
    (Inr \<lparr>name = nm, mode = md, position = 0, closed = False, binary = False,
          fileno = fileno_counter g + 1, in_iter = False, softspace = 0,
          data = str_replace d [CR, LF] [LF]\<rparr>,
     g\<lparr>fileno_counter := fileno_counter g + 1\<rparr>)"
  using assms
  by (elim insertE emptyE) (simp_all add: open_defs backend_defs Let_def mode_tables)

lemma lf_to_crlf_head: "str_replace t [LF] [CR, LF] \<noteq> LF # ys"
  by (cases t) (auto simp: startswith_def unit_defs)

lemma crlf_roundtrip: "str_replace (str_replace t [LF] [CR, LF]) [CR, LF] [LF] = t"
proof (induction t)
  case Nil
  show ?case by simp
next
  case (Cons c cs)
  show ?case
  proof (cases "c = LF")
    case True
    with Cons show ?thesis by (simp add: startswith_def)
  next
    case False
    have "\<not> startswith (c # str_replace cs [LF] [CR, LF]) [CR, LF]"
    proof (cases "str_replace cs [LF] [CR, LF]")
      case Nil
      then show ?thesis by (simp add: startswith_def)
    next
      case (Cons x xs)
      with lf_to_crlf_head [of cs xs] have "x \<noteq> LF" by auto
      with Cons show ?thesis by (simp add: startswith_def)
    qed
    then have outer: "str_replace (c # str_replace cs [LF] [CR, LF]) [CR, LF] [LF]
        = c # str_replace (str_replace cs [LF] [CR, LF]) [CR, LF] [LF]"
      by simp
    from False have inner: "str_replace (c # cs) [LF] [CR, LF] = c # str_replace cs [LF] [CR, LF]"
      by (simp add: startswith_def)
    show ?thesis by (simp only: inner outer Cons.IH)
  qed
qed


lemma file_read_all_fresh:
  assumes "md \<in> {''r'', ''rU'', ''r+''}" "store g nm = Some d"
  shows "file_read g \<lparr>name = nm, mode = md, position = 0, closed = False, binary = False,
            fileno = n, in_iter = False, softspace = 0,
            data = str_replace d [CR, LF] [LF]\<rparr> None =
         (Inr (str_replace d [CR, LF] [LF]),
          \<lparr>name = nm, mode = md, position = length (str_replace d [CR, LF] [LF]),
            closed = False, binary = False, fileno = n, in_iter = False, softspace = 0,
            data = str_replace d [CR, LF] [LF]\<rparr>)"
  using assms
  by (elim insertE emptyE)
     (simp_all add: file_read_def file_open_read_def backend_defs mode_tables)

lemma file_init_append_absent:
  assumes "md \<in> {''a'', ''a+''}" "nm \<noteq> []" "store g nm = None"
  shows "file_init g nm md =
    (Inr \<lparr>name = nm, mode = md, position = 0, closed = False, binary = False,
          fileno = fileno_counter g + 1, in_iter = False, softspace = 0, data = []\<rparr>,
     g\<lparr>fileno_counter := fileno_counter g + 1, store := (store g)(nm \<mapsto> [])\<rparr>)"
  using assms
  by (elim insertE emptyE) (simp_all add: open_defs backend_defs Let_def mode_tables)

lemma file_init_opens_empty:
  assumes "wmode \<in> {''w'', ''w+''} \<or> (wmode \<in> {''a'', ''a+''} \<and> store g nm = None)"
    and "nm \<noteq> []"
  shows "file_init g nm wmode =
    (Inr \<lparr>name = nm, mode = wmode, position = 0, closed = False, binary = False,
          fileno = fileno_counter g + 1, in_iter = False, softspace = 0, data = []\<rparr>,
     g\<lparr>fileno_counter := fileno_counter g + 1, store := (store g)(nm \<mapsto> [])\<rparr>)"
  using assms file_init_write_mode [of wmode nm g] file_init_append_absent [of wmode nm g]
  by blast

text \<open>
  Claim C6, as the specification states it: writing a text with LF to a handle opened in a
  write text mode, closing, reopening in read text mode and reading all returns the text.
  The specification's write class holds the append tokens. In mode \<open>a\<close> on an entry
  that holds \<open>old\<close>, the handle loads that content and starts at its end, and the
  read after the reopening returns \<open>old\<close> followed by the text.
\<close>

theorem append_keeps_existing_content:
  "file_init \<lparr>store = [''f'' \<mapsto> ''old''], fileno_counter = 2\<rparr> ''f'' ''a''
     = (Inr \<lparr>name = ''f'', mode = ''a'', position = 3, closed = False, binary = False,
             fileno = 3, in_iter = False, softspace = 0, data = ''old''\<rparr>,
        \<lparr>store = [''f'' \<mapsto> ''old''], fileno_counter = 3\<rparr>)
   \<and> file_write \<lparr>name = ''f'', mode = ''a'', position = 3, closed = False, binary = False,
             fileno = 3, in_iter = False, softspace = 0, data = ''old''\<rparr> (''T'' @ [LF])
     = (Inr (), \<lparr>name = ''f'', mode = ''a'', position = 6, closed = False, binary = False,
             fileno = 3, in_iter = False, softspace = 0, data = ''oldT'' @ [CR, LF]\<rparr>)
   \<and> file_close \<lparr>store = [''f'' \<mapsto> ''old''], fileno_counter = 3\<rparr>
        \<lparr>name = ''f'', mode = ''a'', position = 6, closed = False, binary = False,
             fileno = 3, in_iter = False, softspace = 0, data = ''oldT'' @ [CR, LF]\<rparr>
     = (Inr (), \<lparr>name = ''f'', mode = ''a'', position = 6, closed = True, binary = False,
             fileno = 3, in_iter = False, softspace = 0, data = ''oldT'' @ [CR, LF]\<rparr>,
        \<lparr>store = [''f'' \<mapsto> ''oldT'' @ [CR, LF]], fileno_counter = 3\<rparr>)
   \<and> file_init \<lparr>store = [''f'' \<mapsto> ''oldT'' @ [CR, LF]], fileno_counter = 3\<rparr> ''f'' ''r''
     = (Inr \<lparr>name = ''f'', mode = ''r'', position = 0, closed = False, binary = False,
             fileno = 4, in_iter = False, softspace = 0, data = ''oldT'' @ [LF]\<rparr>,
        \<lparr>store = [''f'' \<mapsto> ''oldT'' @ [CR, LF]], fileno_counter = 4\<rparr>)
   \<and> fst (file_read \<lparr>store = [''f'' \<mapsto> ''oldT'' @ [CR, LF]], fileno_counter = 4\<rparr>
        \<lparr>name = ''f'', mode = ''r'', position = 0, closed = False, binary = False,
             fileno = 4, in_iter = False, softspace = 0, data = ''oldT'' @ [LF]\<rparr> None)
     = Inr (''oldT'' @ [LF])
   \<and> ''oldT'' @ [LF] \<noteq> ''T'' @ [LF]"
  by (simp add: open_defs backend_defs mode_tables unit_defs file_write_def file_close_def
        file_read_def Let_def)

text \<open>
  Claim C6, amended: for every text \<open>t\<close>, opening a name in a write text mode that
  starts from empty content (\<open>w\<close> or \<open>w+\<close>; \<open>a\<close> or \<open>a+\<close> on a name the
  backend does not hold), writing \<open>t\<close>, closing, opening the same name afresh in a read
  text mode (\<open>r\<close>, \<open>rU\<close> or \<open>r+\<close>) and reading all returns exactly \<open>t\<close>:
  every step succeeds, and the translation of LF to CR LF at the write is undone by the
  normalization of CR LF to LF at the load.
\<close>

theorem write_close_reopen_read:
  assumes "wmode \<in> {''w'', ''w+''} \<or> (wmode \<in> {''a'', ''a+''} \<and> store g nm = None)"
    and "rmode \<in> {''r'', ''rU'', ''r+''}" and "nm \<noteq> []"
  shows "\<exists>h0 g1 h1 h2 g2 h3 g3 h4.
           file_init g nm wmode = (Inr h0, g1)
         \<and> file_write h0 t = (Inr (), h1)
         \<and> file_close g1 h1 = (Inr (), h2, g2)
         \<and> file_init g2 nm rmode = (Inr h3, g3)
         \<and> file_read g3 h3 None = (Inr t, h4)"
proof -
  define tr where "tr = str_replace t [LF] [CR, LF]"
  define h0 where "h0 = \<lparr>name = nm, mode = wmode, position = 0, closed = False,
    binary = False, fileno = fileno_counter g + 1, in_iter = False, softspace = 0,
    data = []\<rparr>"
  define g1 where "g1 = g\<lparr>fileno_counter := fileno_counter g + 1,
    store := (store g)(nm \<mapsto> [])\<rparr>"
  define h1 where "h1 = h0\<lparr>position := length tr, data := tr\<rparr>"
  define h2 where "h2 = h1\<lparr>closed := True\<rparr>"
  define g2 where "g2 = g1\<lparr>store := (store g1)(nm \<mapsto> tr)\<rparr>"
  define h3 where "h3 = \<lparr>name = nm, mode = rmode, position = 0, closed = False,
    binary = False, fileno = fileno_counter g2 + 1, in_iter = False, softspace = 0,
    data = str_replace tr [CR, LF] [LF]\<rparr>"
  define g3 where "g3 = g2\<lparr>fileno_counter := fileno_counter g2 + 1\<rparr>"
  define h4 where "h4 = h3\<lparr>position := length (str_replace tr [CR, LF] [LF])\<rparr>"
  have w: "wmode \<in> set WRITE_MODES"
    using assms(1) by (auto simp: mode_tables)
  have undo: "str_replace tr [CR, LF] [LF] = t"
    by (simp add: tr_def crlf_roundtrip)
  have tr_Nil: "t = [] \<Longrightarrow> tr = []"
    by (simp add: tr_def)
  have s1: "file_init g nm wmode = (Inr h0, g1)"
    unfolding h0_def g1_def by (rule file_init_opens_empty [OF assms(1,3)])
  have s2: "file_write h0 t = (Inr (), h1)"
    using w tr_Nil by (simp add: file_write_def h0_def h1_def tr_def Let_def)
  have s3: "file_close g1 h1 = (Inr (), h2, g2)"
    using w by (simp add: file_close_def h0_def h1_def h2_def g2_def SaveFile_def Let_def)
  have st: "store g2 nm = Some tr"
    by (simp add: g2_def)
  have s4: "file_init g2 nm rmode = (Inr h3, g3)"
    unfolding h3_def g3_def by (rule file_init_read_mode [OF assms(2,3) st])
  have st3: "store g3 nm = Some tr"
    by (simp add: g3_def st)
  have "file_read g3 h3 None = (Inr (str_replace tr [CR, LF] [LF]), h4)"
    unfolding h3_def h4_def using file_read_all_fresh [OF assms(2) st3] by simp
  then have s5: "file_read g3 h3 None = (Inr t, h4)"
    by (simp only: undo)
  from s1 s2 s3 s4 s5 show ?thesis by blast
qed

theorem write_close_reopen_read_witness:
  "(\<exists>h0 g1 h1 h2 g2 h3 g3 h4.
      file_init \<lparr>store = [''f'' \<mapsto> ''old''], fileno_counter = 2\<rparr> ''f'' ''w'' = (Inr h0, g1)
    \<and> file_write h0 [CHR ''a'', LF, CHR ''b'', CR, LF] = (Inr (), h1)
    \<and> file_close g1 h1 = (Inr (), h2, g2)
    \<and> file_init g2 ''f'' ''r'' = (Inr h3, g3)
    \<and> file_read g3 h3 None = (Inr [CHR ''a'', LF, CHR ''b'', CR, LF], h4))
   \<and> (\<exists>h0 g1 h1 h2 g2 h3 g3 h4.
      file_init \<lparr>store = Map.empty, fileno_counter = 2\<rparr> ''f'' ''a'' = (Inr h0, g1)
    \<and> file_write h0 [CHR ''a'', LF] = (Inr (), h1)
    \<and> file_close g1 h1 = (Inr (), h2, g2)
    \<and> file_init g2 ''f'' ''r'' = (Inr h3, g3)
    \<and> file_read g3 h3 None = (Inr [CHR ''a'', LF], h4))"
  using write_close_reopen_read [of "''w''" "\<lparr>store = [''f'' \<mapsto> ''old''], fileno_counter = 2\<rparr>"
      "''f''" "''r''" "[CHR ''a'', LF, CHR ''b'', CR, LF]"]
    write_close_reopen_read [of "''a''" "\<lparr>store = Map.empty, fileno_counter = 2\<rparr>"
      "''f''" "''r''" "[CHR ''a'', LF]"]
  by simp

section \<open>Writing past the end of the content\<close>

lemma file_write_data:
  assumes "mode h \<in> set WRITE_MODES" "\<not> closed h" "d \<noteq> []"
  shows "file_write h d =
    (Inr (),
     h\<lparr>softspace := 0,
       data := take (position h) (data h)
               @ replicate (position h - length (data h)) NUL
               @ (if binary h then d else str_replace d [LF] [CR, LF])
               @ drop (position h + length (if binary h then d else str_replace d [LF] [CR, LF]))
                   (data h),
       position := position h
                   + length (if binary h then d else str_replace d [LF] [CR, LF])\<rparr>)"
  using assms by (simp add: file_write_def Let_def min_def)

lemma sparse_write_scenario:
  assumes "nm \<noteq> []"
  shows "\<exists>h0 g1 h1 h2 h3 h4.
           file_init g nm ''w+'' = (Inr h0, g1)
         \<and> file_seek h0 10 0 = (Inr (), h1)
         \<and> file_write h1 ''x'' = (Inr (), h2)
         \<and> data h2 = replicate 10 NUL @ ''x''
         \<and> file_seek h2 0 0 = (Inr (), h3)
         \<and> file_read g1 h3 None = (Inr (replicate 10 NUL @ ''x''), h4)"
proof -
  have s1: "file_init g nm ''w+'' =
    (Inr \<lparr>name = nm, mode = ''w+'', position = 0, closed = False, binary = False,
          fileno = fileno_counter g + 1, in_iter = False, softspace = 0, data = []\<rparr>,
     g\<lparr>fileno_counter := fileno_counter g + 1, store := (store g)(nm \<mapsto> [])\<rparr>)"
    using assms by (simp add: file_init_write_mode)
  show ?thesis
    unfolding s1
    by (simp add: file_seek_def file_write_def file_read_def Let_def mode_tables
          startswith_def unit_defs)
qed


text \<open>
  Claim C7: a write at a cursor beyond the end of the content pads the gap with null
  units and then appends. On a handle freshly opened on an empty entry (mode \<open>w+\<close>),
  \<open>seek(10)\<close> and \<open>write("x")\<close> leave ten null units followed by \<open>x\<close> as the
  content, and \<open>seek(0)\<close> and \<open>read()\<close> return exactly that. In general, a write
  of non-empty data on an open write-capable handle puts the (translated) data at the
  cursor, fills a gap between the end of the content and the cursor with null units,
  and keeps the content beyond the end of the written data.
\<close>

theorem write_beyond_end_pads:
  "(nm \<noteq> [] \<longrightarrow>
      (\<exists>h0 g1 h1 h2 h3 h4.
           file_init g nm ''w+'' = (Inr h0, g1)
         \<and> file_seek h0 10 0 = (Inr (), h1)
         \<and> file_write h1 ''x'' = (Inr (), h2)
         \<and> data h2 = replicate 10 NUL @ ''x''
         \<and> file_seek h2 0 0 = (Inr (), h3)
         \<and> file_read g1 h3 None = (Inr (replicate 10 NUL @ ''x''), h4)))
   \<and> (mode h \<in> set WRITE_MODES \<and> \<not> closed h \<and> d \<noteq> [] \<longrightarrow>
      (let tr = (if binary h then d else str_replace d [LF] [CR, LF]) in
       \<exists>h'. file_write h d = (Inr (), h')
         \<and> position h' = position h + length tr
         \<and> (length (data h) \<le> position h \<longrightarrow>
               data h' = data h @ replicate (position h - length (data h)) NUL @ tr)
         \<and> drop (position h + length tr) (data h')
             = drop (position h + length tr) (data h)))"
proof (intro conjI impI)
  assume "nm \<noteq> []"
  then show "\<exists>h0 g1 h1 h2 h3 h4.
           file_init g nm ''w+'' = (Inr h0, g1)
         \<and> file_seek h0 10 0 = (Inr (), h1)
         \<and> file_write h1 ''x'' = (Inr (), h2)
         \<and> data h2 = replicate 10 NUL @ ''x''
         \<and> file_seek h2 0 0 = (Inr (), h3)
         \<and> file_read g1 h3 None = (Inr (replicate 10 NUL @ ''x''), h4)"
    by (rule sparse_write_scenario)
next
  assume a: "mode h \<in> set WRITE_MODES \<and> \<not> closed h \<and> d \<noteq> []"
  then have w: "file_write h d =
    (Inr (),
     h\<lparr>softspace := 0,
       data := take (position h) (data h)
               @ replicate (position h - length (data h)) NUL
               @ (if binary h then d else str_replace d [LF] [CR, LF])
               @ drop (position h + length (if binary h then d else str_replace d [LF] [CR, LF]))
                   (data h),
       position := position h
                   + length (if binary h then d else str_replace d [LF] [CR, LF])\<rparr>)"
    by (simp add: file_write_data)
  show "let tr = (if binary h then d else str_replace d [LF] [CR, LF]) in
       \<exists>h'. file_write h d = (Inr (), h')
         \<and> position h' = position h + length tr
         \<and> (length (data h) \<le> position h \<longrightarrow>
               data h' = data h @ replicate (position h - length (data h)) NUL @ tr)
         \<and> drop (position h + length tr) (data h')
             = drop (position h + length tr) (data h)"
    unfolding w Let_def by (simp add: min_def)
qed

theorem write_beyond_end_pads_witness:
  "(\<exists>h0 g1 h1 h2 h3 h4.
      file_init \<lparr>store = Map.empty, fileno_counter = 2\<rparr> ''f'' ''w+'' = (Inr h0, g1)
    \<and> file_seek h0 10 0 = (Inr (), h1)
    \<and> file_write h1 ''x'' = (Inr (), h2)
    \<and> data h2 = replicate 10 NUL @ ''x''
    \<and> file_seek h2 0 0 = (Inr (), h3)
    \<and> file_read g1 h3 None = (Inr (replicate 10 NUL @ ''x''), h4))
   \<and> (\<exists>h'. file_write \<lparr>name = ''f'', mode = ''w'', position = 4, closed = False,
               binary = False, fileno = 3, in_iter = False, softspace = 0,
               data = ''ab''\<rparr> ''x'' = (Inr (), h')
          \<and> position h' = 5 \<and> data h' = ''ab'' @ [NUL, NUL] @ ''x'')
   \<and> (\<exists>h'. file_write \<lparr>name = ''f'', mode = ''w'', position = 1, closed = False,
               binary = False, fileno = 3, in_iter = False, softspace = 0,
               data = ''abcdef''\<rparr> ''XY'' = (Inr (), h')
          \<and> position h' = 3 \<and> drop 3 (data h') = ''def'')"
  using write_beyond_end_pads [of "''f''" "\<lparr>store = Map.empty, fileno_counter = 2\<rparr>"
      "\<lparr>name = ''f'', mode = ''w'', position = 4, closed = False,
               binary = False, fileno = 3, in_iter = False, softspace = 0,
               data = ''ab''\<rparr>" "''x''"]
    write_beyond_end_pads [of "''f''" "\<lparr>store = Map.empty, fileno_counter = 2\<rparr>"
      "\<lparr>name = ''f'', mode = ''w'', position = 1, closed = False,
               binary = False, fileno = 3, in_iter = False, softspace = 0,
               data = ''abcdef''\<rparr>" "''XY''"]
  by (simp add: mode_tables startswith_def unit_defs Let_def eval_nat_numeral) blast


section \<open>readline\<close>

lemma str_find_Cons1:
  "str_find (c # cs) [x] =
     (if c = x then 0 else if str_find cs [x] = - 1 then - 1 else str_find cs [x] + 1)"
  by (simp add: startswith_def Let_def)

lemma str_find_lt_length: "str_find s [x] < int (length s)"
  by (induction s) (simp_all add: str_find_Cons1 del: str_find.simps(2))

lemma str_find_drop_none: "str_find s [x] = - 1 \<Longrightarrow> str_find (drop k s) [x] = - 1"
proof (induction s arbitrary: k)
  case Nil
  then show ?case by simp
next
  case (Cons c cs)
  then show ?case
    using str_find_ge [of cs "[x]"]
    by (cases k) (auto simp: str_find_Cons1 simp del: str_find.simps(2) split: if_splits)
qed

lemma str_find_drop_some:
  "int k \<le> str_find s [x] \<Longrightarrow> str_find (drop k s) [x] = str_find s [x] - int k"
proof (induction s arbitrary: k)
  case Nil
  then show ?case by simp
next
  case (Cons c cs)
  show ?case
  proof (cases k)
    case 0
    then show ?thesis by simp
  next
    case (Suc j)
    with Cons.prems have "int j \<le> str_find cs [x]"
      using str_find_ge [of cs "[x]"]
      by (auto simp: str_find_Cons1 simp del: str_find.simps(2) split: if_splits)
    from Cons.IH [OF this] Suc Cons.prems show ?thesis
      by (auto simp: str_find_Cons1 simp del: str_find.simps(2) split: if_splits)
  qed
qed

lemma length_line_at:
  "position h + length (line_at h) \<le> length (data h) \<or> line_at h = []"
  using str_find_lt_length [of "drop (position h) (data h)" LF]
  by (auto simp: line_at_def Let_def)

lemma file_readline_default:
  assumes "mode h \<notin> set WRITE_MODES"
  shows "file_readline h None = (Inr (line_at h), h\<lparr>position := position h + length (line_at h)\<rparr>)"
proof (cases "position h \<ge> length (data h)")
  case True
  with assms show ?thesis
    by (simp add: file_readline_def line_at_def)
next
  case False
  have lt: "str_find (drop (position h) (data h)) [LF] < int (length (data h) - position h)"
    using str_find_lt_length [of "drop (position h) (data h)" LF] by simp
  have ge: "- 1 \<le> str_find (drop (position h) (data h)) [LF]"
    by (rule str_find_ge)
  from False assms lt ge show ?thesis
    by (auto simp: file_readline_def line_at_def Let_def min_def nat_add_distrib)
qed


lemma file_readline_sized:
  assumes "mode h \<notin> set WRITE_MODES" "0 \<le> k" "nat k < length (line_at h)"
  shows "file_readline h (Some k) =
    (Inr (take (nat k) (line_at h)), h\<lparr>position := position h + nat k\<rparr>)"
proof -
  from assms(3) have pos: "position h < length (data h)"
    by (auto simp: line_at_def Let_def split: if_splits)
  have lt: "str_find (drop (position h) (data h)) [LF] < int (length (data h) - position h)"
    using str_find_lt_length [of "drop (position h) (data h)" LF] by simp
  have ge: "- 1 \<le> str_find (drop (position h) (data h)) [LF]"
    by (rule str_find_ge)
  from assms pos lt ge show ?thesis
    by (auto simp: file_readline_def line_at_def Let_def min_def)
qed

lemma line_at_resume:
  assumes "n < length (line_at h)"
  shows "line_at (h\<lparr>position := position h + n\<rparr>) = drop n (line_at h)"
proof (cases "str_find (drop (position h) (data h)) [LF] = - 1")
  case True
  from str_find_drop_none [OF True, of n] True show ?thesis
    by (simp add: line_at_def Let_def add.commute)
next
  case False
  with str_find_ge [of "drop (position h) (data h)" "[LF]"]
  have ge0: "0 \<le> str_find (drop (position h) (data h)) [LF]" by simp
  with assms False have le: "int n \<le> str_find (drop (position h) (data h)) [LF]"
    by (simp add: line_at_def Let_def) linarith
  then have ar: "nat (1 + (str_find (drop (position h) (data h)) [LF] - int n))
      = nat (1 + str_find (drop (position h) (data h)) [LF]) - n"
    by arith
  from str_find_drop_some [OF le] le False ge0 show ?thesis
    by (simp add: line_at_def Let_def add.commute drop_take ar)
qed

lemma file_readline_resume:
  assumes "mode h \<notin> set WRITE_MODES" "n < length (line_at h)"
  shows "file_readline (h\<lparr>position := position h + n\<rparr>) None =
    (Inr (drop n (line_at h)), h\<lparr>position := position h + length (line_at h)\<rparr>)"
  using assms file_readline_default [of "h\<lparr>position := position h + n\<rparr>"]
  by (simp add: line_at_resume)


lemma file_readline_default_result:
  assumes "file_readline h None = (Inr line, h')"
  shows "mode h \<notin> set WRITE_MODES \<and> line = line_at h
         \<and> h' = h\<lparr>position := position h + length (line_at h)\<rparr>"
proof -
  from assms have m: "mode h \<notin> set WRITE_MODES"
    by (auto simp: file_readline_def)
  from assms file_readline_default [OF m] show ?thesis
    using m by auto
qed

text \<open>
  Claim C8: on a read-text handle with content \<open>ab LF cd\<close> and cursor 0, the first
  \<open>readline()\<close> returns \<open>ab LF\<close> and leaves the cursor at 3, the second returns
  \<open>cd\<close>, and the third returns the empty result without error. In general, when
  \<open>readline()\<close> would return \<open>line\<close> and the size argument \<open>k\<close> is shorter than
  that line, \<open>readline(k)\<close> returns the first \<open>k\<close> units of the line and advances the
  cursor by \<open>k\<close> only; a following \<open>readline()\<close> returns the rest of the line and ends
  where the untruncated call would have ended.
\<close>

theorem readline_boundaries:
  "(mode h \<notin> set WRITE_MODES \<and> data h = ''ab'' @ [LF] @ ''cd'' \<and> position h = 0 \<longrightarrow>
      file_readline h None = (Inr (''ab'' @ [LF]), h\<lparr>position := 3\<rparr>)
    \<and> file_readline (h\<lparr>position := 3\<rparr>) None = (Inr ''cd'', h\<lparr>position := 5\<rparr>)
    \<and> file_readline (h\<lparr>position := 5\<rparr>) None = (Inr [], h\<lparr>position := 5\<rparr>))
   \<and> (file_readline h None = (Inr line, h') \<and> 0 \<le> k \<and> nat k < length line \<longrightarrow>
      file_readline h (Some k) = (Inr (take (nat k) line), h\<lparr>position := position h + nat k\<rparr>)
    \<and> file_readline (h\<lparr>position := position h + nat k\<rparr>) None
        = (Inr (drop (nat k) line), h'))"
proof (intro conjI impI)
  assume a: "mode h \<notin> set WRITE_MODES \<and> data h = ''ab'' @ [LF] @ ''cd'' \<and> position h = 0"
  then show "file_readline h None = (Inr (''ab'' @ [LF]), h\<lparr>position := 3\<rparr>)"
    by (simp add: file_readline_def startswith_def unit_defs Let_def)
  from a show "file_readline (h\<lparr>position := 3\<rparr>) None = (Inr ''cd'', h\<lparr>position := 5\<rparr>)"
    by (simp add: file_readline_def startswith_def unit_defs Let_def)
  from a show "file_readline (h\<lparr>position := 5\<rparr>) None = (Inr [], h\<lparr>position := 5\<rparr>)"
    by (simp add: file_readline_def)
next
  assume b: "file_readline h None = (Inr line, h') \<and> 0 \<le> k \<and> nat k < length line"
  then have r: "mode h \<notin> set WRITE_MODES" "line = line_at h"
      "h' = h\<lparr>position := position h + length (line_at h)\<rparr>"
    using file_readline_default_result [of h line h'] by simp_all
  from b r show "file_readline h (Some k)
      = (Inr (take (nat k) line), h\<lparr>position := position h + nat k\<rparr>)"
    by (simp add: file_readline_sized)
  from b r show "file_readline (h\<lparr>position := position h + nat k\<rparr>) None
      = (Inr (drop (nat k) line), h')"
    by (simp add: file_readline_resume)
qed

theorem readline_boundaries_witness:
  "file_readline \<lparr>name = ''f'', mode = ''r'', position = 0, closed = False, binary = False,
      fileno = 3, in_iter = False, softspace = 0, data = ''ab'' @ [LF] @ ''cd''\<rparr> None
     = (Inr (''ab'' @ [LF]),
        \<lparr>name = ''f'', mode = ''r'', position = 3, closed = False, binary = False,
          fileno = 3, in_iter = False, softspace = 0, data = ''ab'' @ [LF] @ ''cd''\<rparr>)
   \<and> file_readline \<lparr>name = ''f'', mode = ''r'', position = 0, closed = False, binary = False,
      fileno = 3, in_iter = False, softspace = 0, data = ''ab'' @ [LF] @ ''cd''\<rparr> (Some 1)
     = (Inr ''a'',
        \<lparr>name = ''f'', mode = ''r'', position = 1, closed = False, binary = False,
          fileno = 3, in_iter = False, softspace = 0, data = ''ab'' @ [LF] @ ''cd''\<rparr>)
   \<and> file_readline \<lparr>name = ''f'', mode = ''r'', position = 1, closed = False, binary = False,
      fileno = 3, in_iter = False, softspace = 0, data = ''ab'' @ [LF] @ ''cd''\<rparr> None
     = (Inr (''b'' @ [LF]),
        \<lparr>name = ''f'', mode = ''r'', position = 3, closed = False, binary = False,
          fileno = 3, in_iter = False, softspace = 0, data = ''ab'' @ [LF] @ ''cd''\<rparr>)"
  using readline_boundaries [of "\<lparr>name = ''f'', mode = ''r'', position = 0, closed = False,
      binary = False, fileno = 3, in_iter = False, softspace = 0,
      data = ''ab'' @ [LF] @ ''cd''\<rparr>" "''ab'' @ [LF]"
      "\<lparr>name = ''f'', mode = ''r'', position = 3, closed = False, binary = False,
          fileno = 3, in_iter = False, softspace = 0, data = ''ab'' @ [LF] @ ''cd''\<rparr>" 1]
  by (simp add: mode_tables)


section \<open>Iteration and direct reads\<close>

lemma pure_read_modes:
  "mode h \<in> set ALL_MODES \<Longrightarrow> mode h \<notin> set WRITE_MODES \<Longrightarrow> mode h \<in> set READ_MODES"
  by (auto simp: mode_tables)

lemma file_next_result:
  assumes "mode h \<notin> set WRITE_MODES"
  shows "file_next h =
    (if length (data h) \<le> position h then (Inl StopIteration, h\<lparr>in_iter := True\<rparr>)
     else (Inr (line_at h),
           h\<lparr>in_iter := True, position := position h + length (line_at h)\<rparr>))"
  using assms file_readline_default [of "h\<lparr>in_iter := True\<rparr>"]
  by (simp add: file_next_def line_at_def)

lemma take_length_take: "take (length (take n xs)) xs = take n xs"
  by (cases "n \<le> length xs") (simp_all add: min_def)

lemma line_at_prefix:
  "line_at h = take (length (line_at h)) (drop (position h) (data h))"
proof (cases "str_find (drop (position h) (data h)) [LF] = - 1")
  case True
  then show ?thesis by (simp add: line_at_def Let_def)
next
  case False
  then have "line_at h = take (nat (str_find (drop (position h) (data h)) [LF] + 1))
      (drop (position h) (data h))"
    by (simp add: line_at_def Let_def)
  then show ?thesis
    using take_length_take
      [of "nat (str_find (drop (position h) (data h)) [LF] + 1)" "drop (position h) (data h)"]
    by simp
qed

lemma line_at_nonempty: "position h < length (data h) \<Longrightarrow> line_at h \<noteq> []"
  using str_find_ge [of "drop (position h) (data h)" "[LF]"]
  by (auto simp: line_at_def Let_def)

lemma iterate_result:
  "mode h \<notin> set WRITE_MODES \<Longrightarrow>
     \<exists>ls. iterate h =
            (Inr ls, h\<lparr>in_iter := True, position := max (position h) (length (data h))\<rparr>)
          \<and> concat ls = drop (position h) (data h)"
proof (induction h rule: iterate.induct)
  case (1 self)
  show ?case
  proof (cases "length (data self) \<le> position self")
    case True
    with "1.prems" show ?thesis
      by (simp add: iterate.simps [of self] file_next_result max_def)
  next
    case False
    define self1 where
      "self1 = self\<lparr>in_iter := True, position := position self + length (line_at self)\<rparr>"
    from False "1.prems" have n: "file_next self = (Inr (line_at self), self1)"
      by (simp add: file_next_result self1_def)
    have m1: "mode self1 \<notin> set WRITE_MODES"
      using "1.prems" by (simp add: self1_def)
    from "1.IH" [OF n [symmetric] refl m1] obtain ls where
      ls: "iterate self1 =
             (Inr ls, self1\<lparr>in_iter := True,
                position := max (position self1) (length (data self1))\<rparr>)"
        "concat ls = drop (position self1) (data self1)"
      by blast
    have le: "position self + length (line_at self) \<le> length (data self)"
      using length_line_at [of self] line_at_nonempty [of self] False by auto
    have cat: "line_at self @ drop (position self + length (line_at self)) (data self)
        = drop (position self) (data self)"
      using line_at_prefix [of self]
      by (metis add.commute append_take_drop_id drop_drop)
    have "iterate self =
        (Inr (line_at self # ls),
         self\<lparr>in_iter := True, position := max (position self) (length (data self))\<rparr>)"
      using n ls(1) le False
      by (simp add: iterate.simps [of self] self1_def max_def)
    moreover have "concat (line_at self # ls) = drop (position self) (data self)"
      using ls(2) cat by (simp add: self1_def)
    ultimately show ?thesis by blast
  qed
qed


lemma file_next_sets_in_iter:
  assumes "mode h \<notin> set WRITE_MODES" "file_next h = (r, h1)"
  shows "in_iter h1 \<and> mode h1 = mode h \<and> closed h1 = closed h \<and> name h1 = name h"
  using assms by (auto simp: file_next_result split: if_splits)

lemma file_read_in_iter:
  assumes "mode h \<in> set READ_MODES" "\<not> closed h" "in_iter h"
  shows "file_read g h sz =
    (Inl (ValueError (Msg ''Mixing iteration and read methods would lose data'')), h)"
  using assms by (simp add: file_read_def)

lemma file_seek_result:
  assumes "file_seek h offset whence = (Inr (), h2)"
  shows "\<not> in_iter h2 \<and> mode h2 = mode h \<and> closed h2 = closed h \<and> name h2 = name h"
  using assms by (auto simp: file_seek_def Let_def split: if_splits)

lemma file_read_succeeds:
  assumes "mode h \<in> set READ_MODES" "\<not> closed h" "\<not> in_iter h" "store g (name h) \<noteq> None"
  shows "\<exists>d h3. file_read g h sz = (Inr d, h3)"
  using assms
  by (auto simp: file_read_def file_open_read_def backend_defs Let_def split: option.splits)

text \<open>
  Claim C9: on an open handle whose mode permits the iteration step, after a step (a line
  returned or the iteration exhausted) a direct \<open>read\<close> raises the value error about
  mixing iteration and read methods; after a \<open>seek\<close> that succeeds on that handle, a
  direct \<open>read\<close> returns a result again (the backend still holding the entry that
  \<open>read\<close> reloads when the cursor is 0).
\<close>

theorem iteration_blocks_read_until_seek:
  assumes "mode h \<in> set ALL_MODES" and "mode h \<notin> set WRITE_MODES" and "\<not> closed h"
    and "file_next h = (r, h1)"
  shows "file_read g h1 sz =
           (Inl (ValueError (Msg ''Mixing iteration and read methods would lose data'')), h1)
         \<and> (file_seek h1 offset whence = (Inr (), h2) \<and> store g (name h) \<noteq> None \<longrightarrow>
              (\<exists>d h3. file_read g h2 sz = (Inr d, h3)))"
proof (intro conjI impI)
  note n = file_next_sets_in_iter [OF assms(2,4)]
  from assms(1,2) have rd: "mode h \<in> set READ_MODES"
    by (rule pure_read_modes)
  from n rd assms(3) show "file_read g h1 sz =
      (Inl (ValueError (Msg ''Mixing iteration and read methods would lose data'')), h1)"
    by (simp add: file_read_in_iter)
  assume a: "file_seek h1 offset whence = (Inr (), h2) \<and> store g (name h) \<noteq> None"
  then have s: "\<not> in_iter h2 \<and> mode h2 = mode h1 \<and> closed h2 = closed h1 \<and> name h2 = name h1"
    using file_seek_result [of h1 offset whence h2] by simp
  from s n rd assms(3) a show "\<exists>d h3. file_read g h2 sz = (Inr d, h3)"
    by (intro file_read_succeeds) simp_all
qed

theorem iteration_blocks_read_until_seek_witness:
  "file_next \<lparr>name = ''f'', mode = ''r'', position = 0, closed = False, binary = False,
      fileno = 3, in_iter = False, softspace = 0, data = ''ab'' @ [LF] @ ''cd''\<rparr>
     = (Inr (''ab'' @ [LF]),
        \<lparr>name = ''f'', mode = ''r'', position = 3, closed = False, binary = False,
          fileno = 3, in_iter = True, softspace = 0, data = ''ab'' @ [LF] @ ''cd''\<rparr>)
   \<and> file_read \<lparr>store = [''f'' \<mapsto> ''ab'' @ [LF] @ ''cd''], fileno_counter = 3\<rparr>
        \<lparr>name = ''f'', mode = ''r'', position = 3, closed = False, binary = False,
          fileno = 3, in_iter = True, softspace = 0, data = ''ab'' @ [LF] @ ''cd''\<rparr> None
     = (Inl (ValueError (Msg ''Mixing iteration and read methods would lose data'')),
        \<lparr>name = ''f'', mode = ''r'', position = 3, closed = False, binary = False,
          fileno = 3, in_iter = True, softspace = 0, data = ''ab'' @ [LF] @ ''cd''\<rparr>)
   \<and> file_seek \<lparr>name = ''f'', mode = ''r'', position = 3, closed = False, binary = False,
          fileno = 3, in_iter = True, softspace = 0, data = ''ab'' @ [LF] @ ''cd''\<rparr> 1 0
     = (Inr (),
        \<lparr>name = ''f'', mode = ''r'', position = 1, closed = False, binary = False,
          fileno = 3, in_iter = False, softspace = 0, data = ''ab'' @ [LF] @ ''cd''\<rparr>)
   \<and> (\<exists>d h3. file_read \<lparr>store = [''f'' \<mapsto> ''ab'' @ [LF] @ ''cd''], fileno_counter = 3\<rparr>
        \<lparr>name = ''f'', mode = ''r'', position = 1, closed = False, binary = False,
          fileno = 3, in_iter = False, softspace = 0, data = ''ab'' @ [LF] @ ''cd''\<rparr> None
       = (Inr d, h3))"
proof -
  have n: "file_next \<lparr>name = ''f'', mode = ''r'', position = 0, closed = False,
      binary = False, fileno = 3, in_iter = False, softspace = 0,
      data = ''ab'' @ [LF] @ ''cd''\<rparr>
     = (Inr (''ab'' @ [LF]),
        \<lparr>name = ''f'', mode = ''r'', position = 3, closed = False, binary = False,
          fileno = 3, in_iter = True, softspace = 0, data = ''ab'' @ [LF] @ ''cd''\<rparr>)"
    by (simp add: file_next_def file_readline_def mode_tables startswith_def unit_defs Let_def)
  have s: "file_seek \<lparr>name = ''f'', mode = ''r'', position = 3, closed = False,
          binary = False, fileno = 3, in_iter = True, softspace = 0,
          data = ''ab'' @ [LF] @ ''cd''\<rparr> 1 0
     = (Inr (),
        \<lparr>name = ''f'', mode = ''r'', position = 1, closed = False, binary = False,
          fileno = 3, in_iter = False, softspace = 0, data = ''ab'' @ [LF] @ ''cd''\<rparr>)"
    by (simp add: file_seek_def)
  show ?thesis
    using n s iteration_blocks_read_until_seek [OF _ _ _ n,
      of "\<lparr>store = [''f'' \<mapsto> ''ab'' @ [LF] @ ''cd''], fileno_counter = 3\<rparr>" None 1 0
         "\<lparr>name = ''f'', mode = ''r'', position = 1, closed = False, binary = False,
          fileno = 3, in_iter = False, softspace = 0, data = ''ab'' @ [LF] @ ''cd''\<rparr>"]
    by (simp add: mode_tables)
qed


lemma file_readlines_result:
  assumes "mode h \<notin> set WRITE_MODES"
  shows "\<exists>ls. file_readlines h sz =
           (Inr ls, h\<lparr>in_iter := False, position := max (position h) (length (data h))\<rparr>)
         \<and> concat ls = drop (position h) (data h)"
proof -
  from iterate_result [OF assms] obtain ls where
    "iterate h =
       (Inr ls, h\<lparr>in_iter := True, position := max (position h) (length (data h))\<rparr>)"
    "concat ls = drop (position h) (data h)"
    by blast
  with assms show ?thesis
    by (simp add: file_readlines_def)
qed

lemma file_read_at_end:
  assumes "mode h \<in> set READ_MODES" "\<not> closed h" "\<not> in_iter h"
    and "length (data h) \<le> position h" and "file_open_read g h = Inr h"
  shows "file_read g h None = (Inr [], h)"
proof (cases "position h = 0 \<and> mode h \<notin> set WRITE_MODES")
  case True
  with assms show ?thesis
    by (simp add: file_read_def Let_def)
next
  case False
  then have "(if position h = 0 \<and> mode h \<notin> set WRITE_MODES
      then file_open_read g h else Inr h) = Inr h"
    by (simp only: if_False)
  with assms(1-4) show ?thesis
    by (simp add: file_read_def Let_def)
qed

text \<open>
  Claim C10: on a handle whose mode permits \<open>readlines\<close>, \<open>readlines()\<close> returns the
  remaining lines (together they are the content from the cursor on), leaves the cursor
  at or past the end of the content and the in-iteration flag cleared, whatever the flag
  was before. A direct \<open>read()\<close> on the handle as \<open>readlines\<close> left it, with no seek in
  between, is then permitted and returns the empty result (the handle being open and
  holding the content that the backend entry gives on a load).
\<close>

theorem readlines_clears_in_iter:
  assumes "mode h \<in> set ALL_MODES" and "mode h \<notin> set WRITE_MODES"
  shows "\<exists>ls h1. file_readlines h sz = (Inr ls, h1)
           \<and> concat ls = drop (position h) (data h)
           \<and> \<not> in_iter h1
           \<and> length (data h1) \<le> position h1
           \<and> (\<not> closed h \<and> file_open_read g h = Inr h \<longrightarrow>
                file_read g h1 None = (Inr [], h1))"
proof -
  define h1 where
    "h1 = h\<lparr>in_iter := False, position := max (position h) (length (data h))\<rparr>"
  from file_readlines_result [OF assms(2), of sz] obtain ls where
    ls: "file_readlines h sz = (Inr ls, h1)" "concat ls = drop (position h) (data h)"
    unfolding h1_def by blast
  from assms have rd: "mode h1 \<in> set READ_MODES"
    by (simp add: h1_def pure_read_modes)
  have fl: "\<not> in_iter h1" and pos: "length (data h1) \<le> position h1"
    by (simp_all add: h1_def)
  have reload: "file_open_read g h1 = Inr h1" if "file_open_read g h = Inr h"
  proof -
    from that obtain d where d: "store g (name h) = Some d"
      and eq: "h\<lparr>data := (if binary h then d else str_replace d [CR, LF] [LF])\<rparr> = h"
      by (auto simp: file_open_read_def backend_defs split: if_splits option.splits)
    from eq have "data (h\<lparr>data := (if binary h then d else str_replace d [CR, LF] [LF])\<rparr>)
        = data h"
      by simp
    then have "(if binary h then d else str_replace d [CR, LF] [LF]) = data h"
      by simp
    with d show ?thesis
      by (simp add: file_open_read_def backend_defs h1_def)
  qed
  have "file_read g h1 None = (Inr [], h1)" if "\<not> closed h \<and> file_open_read g h = Inr h"
    using that rd fl pos reload
    by (intro file_read_at_end) (simp_all add: h1_def)
  with ls fl pos show ?thesis by blast
qed

theorem readlines_clears_in_iter_witness:
  "\<exists>ls h1. file_readlines \<lparr>name = ''f'', mode = ''r'', position = 3, closed = False,
        binary = False, fileno = 3, in_iter = True, softspace = 0,
        data = ''ab'' @ [LF] @ ''cd''\<rparr> None = (Inr ls, h1)
     \<and> concat ls = ''cd''
     \<and> \<not> in_iter h1
     \<and> file_read \<lparr>store = [''f'' \<mapsto> ''ab'' @ [CR, LF] @ ''cd''], fileno_counter = 3\<rparr> h1 None
         = (Inr [], h1)"
proof -
  have o: "file_open_read \<lparr>store = [''f'' \<mapsto> ''ab'' @ [CR, LF] @ ''cd''], fileno_counter = 3\<rparr>
      \<lparr>name = ''f'', mode = ''r'', position = 3, closed = False,
        binary = False, fileno = 3, in_iter = True, softspace = 0,
        data = ''ab'' @ [LF] @ ''cd''\<rparr>
    = Inr \<lparr>name = ''f'', mode = ''r'', position = 3, closed = False,
        binary = False, fileno = 3, in_iter = True, softspace = 0,
        data = ''ab'' @ [LF] @ ''cd''\<rparr>"
    by (simp add: file_open_read_def backend_defs startswith_def unit_defs)
  show ?thesis
    using o readlines_clears_in_iter [of "\<lparr>name = ''f'', mode = ''r'', position = 3,
        closed = False, binary = False, fileno = 3, in_iter = True, softspace = 0,
        data = ''ab'' @ [LF] @ ''cd''\<rparr>" None
        "\<lparr>store = [''f'' \<mapsto> ''ab'' @ [CR, LF] @ ''cd''], fileno_counter = 3\<rparr>"]
    by (simp add: mode_tables) blast
qed


section \<open>Operations on a closed handle\<close>

lemma file_read_closed:
  "mode h \<in> set READ_MODES \<Longrightarrow> closed h \<Longrightarrow> file_read g h sz = (Inl closed_file, h)"
  by (simp add: file_read_def)

lemma file_write_closed:
  "mode h \<in> set WRITE_MODES \<Longrightarrow> closed h \<Longrightarrow> file_write h d = (Inl closed_file, h)"
  by (simp add: file_write_def)

lemma file_close_closed: "closed h \<Longrightarrow> file_close g h = (Inr (), h, g)"
  by (simp add: file_close_def)

lemma file_readline_closed: "closed h \<Longrightarrow> closed (snd (file_readline h sz))"
  by (auto simp: file_readline_def Let_def split: option.splits)

lemma closed_stays_closed:
  assumes "closed h"
  shows "closed (snd (file_read g h sz))" and "closed (snd (file_write h d))"
    and "closed (fst (snd (file_close g h)))" and "closed (snd (file_seek h offset whence))"
    and "closed (snd (file_readline h sz))" and "closed (snd (file_next h))"
    and "closed (fst (snd (file_truncate g h sz)))"
proof -
  show "closed (snd (file_read g h sz))"
    using assms by (simp add: file_read_def)
  show "closed (snd (file_write h d))"
    using assms by (simp add: file_write_def)
  show "closed (fst (snd (file_close g h)))"
    using assms by (simp add: file_close_def)
  show "closed (snd (file_seek h offset whence))"
    using assms by (simp add: file_seek_def Let_def)
  show "closed (snd (file_readline h sz))"
    using assms by (rule file_readline_closed)
  show "closed (snd (file_next h))"
    using assms file_readline_closed [of "h\<lparr>in_iter := True\<rparr>" None]
    by (simp add: file_next_def Let_def)
  show "closed (fst (snd (file_truncate g h sz)))"
    using assms by (simp add: file_truncate_def Let_def split: prod.splits)
qed

text \<open>
  Claim C2 says that on a closed handle every operation but a repeated close raises the
  use-after-close error. Only \<open>read\<close> and \<open>write\<close> test \<open>self.closed\<close> (the
  lemmas above: both raise it on a closed handle whose mode passes their capability
  check, and no method resets the flag). Below, a handle is opened in mode \<open>w\<close>,
  written and closed, which commits \<open>hi\<close>; on the
  closed handle \<open>seek\<close>, \<open>flush\<close> and \<open>truncate(0)\<close> return normally, and the
  truncate replaces the committed entry by the empty content. A handle opened in mode
  \<open>r\<close> and closed still returns a line from \<open>readline\<close> and from the iteration step.
\<close>

theorem closed_handle_still_operates:
  "file_init \<lparr>store = Map.empty, fileno_counter = 2\<rparr> ''f'' ''w''
     = (Inr \<lparr>name = ''f'', mode = ''w'', position = 0, closed = False, binary = False,
             fileno = 3, in_iter = False, softspace = 0, data = ''''\<rparr>,
        \<lparr>store = [''f'' \<mapsto> ''''], fileno_counter = 3\<rparr>)
   \<and> file_write \<lparr>name = ''f'', mode = ''w'', position = 0, closed = False, binary = False,
             fileno = 3, in_iter = False, softspace = 0, data = ''''\<rparr> ''hi''
     = (Inr (), \<lparr>name = ''f'', mode = ''w'', position = 2, closed = False, binary = False,
             fileno = 3, in_iter = False, softspace = 0, data = ''hi''\<rparr>)
   \<and> file_close \<lparr>store = [''f'' \<mapsto> ''''], fileno_counter = 3\<rparr>
      \<lparr>name = ''f'', mode = ''w'', position = 2, closed = False, binary = False,
        fileno = 3, in_iter = False, softspace = 0, data = ''hi''\<rparr>
     = (Inr (),
        \<lparr>name = ''f'', mode = ''w'', position = 2, closed = True, binary = False,
          fileno = 3, in_iter = False, softspace = 0, data = ''hi''\<rparr>,
        \<lparr>store = [''f'' \<mapsto> ''hi''], fileno_counter = 3\<rparr>)
   \<and> file_seek \<lparr>name = ''f'', mode = ''w'', position = 2, closed = True, binary = False,
          fileno = 3, in_iter = False, softspace = 0, data = ''hi''\<rparr> 0 0
     = (Inr (),
        \<lparr>name = ''f'', mode = ''w'', position = 0, closed = True, binary = False,
          fileno = 3, in_iter = False, softspace = 0, data = ''hi''\<rparr>)
   \<and> file_flush \<lparr>store = [''f'' \<mapsto> ''hi''], fileno_counter = 3\<rparr>
        \<lparr>name = ''f'', mode = ''w'', position = 2, closed = True, binary = False,
          fileno = 3, in_iter = False, softspace = 0, data = ''hi''\<rparr>
     = (Inr (), \<lparr>store = [''f'' \<mapsto> ''hi''], fileno_counter = 3\<rparr>)
   \<and> file_truncate \<lparr>store = [''f'' \<mapsto> ''hi''], fileno_counter = 3\<rparr>
        \<lparr>name = ''f'', mode = ''w'', position = 2, closed = True, binary = False,
          fileno = 3, in_iter = False, softspace = 0, data = ''hi''\<rparr> (Some 0)
     = (Inr (),
        \<lparr>name = ''f'', mode = ''w'', position = 2, closed = True, binary = False,
          fileno = 3, in_iter = False, softspace = 0, data = ''''\<rparr>,
        \<lparr>store = [''f'' \<mapsto> ''''], fileno_counter = 3\<rparr>)
   \<and> file_tell \<lparr>name = ''f'', mode = ''w'', position = 2, closed = True, binary = False,
          fileno = 3, in_iter = False, softspace = 0, data = ''hi''\<rparr> = 2
   \<and> file_init \<lparr>store = [''f'' \<mapsto> ''hi''], fileno_counter = 3\<rparr> ''f'' ''r''
     = (Inr \<lparr>name = ''f'', mode = ''r'', position = 0, closed = False, binary = False,
             fileno = 4, in_iter = False, softspace = 0, data = ''hi''\<rparr>,
        \<lparr>store = [''f'' \<mapsto> ''hi''], fileno_counter = 4\<rparr>)
   \<and> file_close \<lparr>store = [''f'' \<mapsto> ''hi''], fileno_counter = 4\<rparr>
        \<lparr>name = ''f'', mode = ''r'', position = 0, closed = False, binary = False,
             fileno = 4, in_iter = False, softspace = 0, data = ''hi''\<rparr>
     = (Inr (),
        \<lparr>name = ''f'', mode = ''r'', position = 0, closed = True, binary = False,
          fileno = 4, in_iter = False, softspace = 0, data = ''hi''\<rparr>,
        \<lparr>store = [''f'' \<mapsto> ''hi''], fileno_counter = 4\<rparr>)
   \<and> file_readline \<lparr>name = ''f'', mode = ''r'', position = 0, closed = True, binary = False,
          fileno = 4, in_iter = False, softspace = 0, data = ''hi''\<rparr> None
     = (Inr ''hi'',
        \<lparr>name = ''f'', mode = ''r'', position = 2, closed = True, binary = False,
          fileno = 4, in_iter = False, softspace = 0, data = ''hi''\<rparr>)
   \<and> file_next \<lparr>name = ''f'', mode = ''r'', position = 0, closed = True, binary = False,
          fileno = 4, in_iter = False, softspace = 0, data = ''hi''\<rparr>
     = (Inr ''hi'',
        \<lparr>name = ''f'', mode = ''r'', position = 2, closed = True, binary = False,
          fileno = 4, in_iter = True, softspace = 0, data = ''hi''\<rparr>)"
  by (simp add: open_defs backend_defs file_write_def file_close_def file_seek_def
        file_flush_def file_truncate_def file_tell_def file_readline_def file_next_def
        mode_tables unit_defs Let_def)

end
